theory Spec2Isabelle
  imports Complex_Main "HOL-Library.Word"
begin

section \<open>The real-to-complex 3D FFT plan (include/heffte\_fft3d\_r2c.h)\<close>

text \<open>
  The class \<^verbatim>\<open>heffte::fft3d_r2c\<close> is embedded as a record of its private members and
  one HOL function per member function. The header includes \<^verbatim>\<open>heffte_fft3d.h\<close>, which
  brings in \<^verbatim>\<open>box3d\<close>, \<^verbatim>\<open>scale\<close>, \<^verbatim>\<open>reshape3d_base\<close>, the executors,
  \<^verbatim>\<open>get_workspace_size\<close>, \<^verbatim>\<open>get_max_size\<close>, \<^verbatim>\<open>plan_operations\<close> and the type
  traits. Where a definition below stands for one of those, its comment says so.

  Numbers: \<^verbatim>\<open>double\<close> is idealised as \<^typ>\<open>real\<close> and \<^verbatim>\<open>std::complex\<close> as
  \<^typ>\<open>complex\<close>. The \<^verbatim>\<open>int\<close> that \<^verbatim>\<open>size_inbox()\<close> and \<^verbatim>\<open>size_outbox()\<close>
  return is a word of 32 bits read as a signed number, and the \<^verbatim>\<open>size_t\<close> it is
  compared with is a word of 64 bits. The workspace sizes, which are \<^verbatim>\<open>size_t\<close>
  throughout, are natural numbers: they would wrap only at \<open>2^64\<close> elements.
\<close>

subsection \<open>Boxes\<close>

text \<open>
  Modelled from the spec: \<^verbatim>\<open>box3d\<close>, which is declared in another header of the
  library. A box has an inclusive lower corner, an inclusive upper corner and an axis
  order; its count is the product of the three extents when it is non-empty and 0
  otherwise. Axes are numbered 0, 1, 2; \<open>nth3\<close> and \<open>upd3\<close> read and replace the
  component of an axis (the last one for any number other than 0 and 1; the properties
  below are about axes 0, 1, 2).
\<close>

record box3d =
  low :: "int \<times> int \<times> int"
  high :: "int \<times> int \<times> int"
  order :: "nat \<times> nat \<times> nat"

fun nth3 :: "int \<times> int \<times> int \<Rightarrow> int \<Rightarrow> int" where
  "nth3 (a, b, c) r = (if r = 0 then a else if r = 1 then b else c)"

fun upd3 :: "int \<times> int \<times> int \<Rightarrow> int \<Rightarrow> int \<Rightarrow> int \<times> int \<times> int" where
  "upd3 (a, b, c) r v = (if r = 0 then (v, b, c) else if r = 1 then (a, v, c) else (a, b, v))"

definition box_size :: "box3d \<Rightarrow> int \<Rightarrow> int" where
  "box_size b r = nth3 (high b) r - nth3 (low b) r + 1"

definition box_empty :: "box3d \<Rightarrow> bool" where
  "box_empty b = (box_size b 0 \<le> 0 \<or> box_size b 1 \<le> 0 \<or> box_size b 2 \<le> 0)"

definition count :: "box3d \<Rightarrow> int" where
  "count b = (if box_empty b then 0 else box_size b 0 * box_size b 1 * box_size b 2)"

definition world :: "int \<Rightarrow> int \<Rightarrow> int \<Rightarrow> box3d" where
  "world X Y Z = \<lparr>low = (0, 0, 0), high = (X - 1, Y - 1, Z - 1), order = (0, 1, 2)\<rparr>"

subsection \<open>The members of the plan\<close>

text \<open>
  Modelled from the spec: the enumeration \<^verbatim>\<open>scale\<close>, of which the header uses
  \<^verbatim>\<open>scale::none\<close> and \<^verbatim>\<open>scale::symmetric\<close>.
\<close>

datatype scale = none | full | symmetric

text \<open>
  Modelled from the spec: \<^verbatim>\<open>reshape3d_base\<close> and the one-dimensional executors, of
  which the header only holds owning pointers. A reshape stage needs a communication
  workspace of its send volume plus its receive volume; an executor needs a scratch area.
  A null pointer in \<^verbatim>\<open>forward_shaper\<close> or \<^verbatim>\<open>backward_shaper\<close> (a stage that is
  skipped) is \<open>None\<close>.
\<close>

record reshape3d =
  send_volume :: nat
  recv_volume :: nat

record executor1d =
  scratch_size :: nat

record fft3d_r2c =
  pinbox :: box3d
  poutbox :: box3d
  scale_factor :: real
  forward_shaper :: "reshape3d option list"
  backward_shaper :: "reshape3d option list"
  executor_r2c :: executor1d
  executor :: "executor1d list"

subsection \<open>Queries\<close>

text \<open>
  \<^verbatim>\<open>int size_inbox() const{ return pinbox.count(); }\<close> and its sibling: the count of
  the box as an \<^verbatim>\<open>int\<close>. A count of \<open>2^31\<close> or more does not fit and comes out
  reduced modulo \<open>2^32\<close>; \<open>sint\<close> reads the value the caller sees.
\<close>

definition size_inbox :: "fft3d_r2c \<Rightarrow> 32 word" where
  "size_inbox p = word_of_int (count (pinbox p))"

definition size_outbox :: "fft3d_r2c \<Rightarrow> 32 word" where
  "size_outbox p = word_of_int (count (poutbox p))"



text \<open>
  Modelled from the spec: \<^verbatim>\<open>reshape3d_base::size_workspace\<close>, \<^verbatim>\<open>get_workspace_size\<close>
  and \<^verbatim>\<open>get_max_size\<close> (defined in other headers of the library). The first is the
  send volume plus the receive volume of one stage; the second is the largest of these
  over the stages that are present, starting from 0; the third is the largest scratch
  size over the R2C executor and the C2C executors.
\<close>

definition reshape_size_workspace :: "reshape3d \<Rightarrow> nat" where
  "reshape_size_workspace s = send_volume s + recv_volume s"

fun get_workspace_size :: "reshape3d option list \<Rightarrow> nat" where
  "get_workspace_size [] = 0"
| "get_workspace_size (None # ss) = get_workspace_size ss"
| "get_workspace_size (Some s # ss) = max (reshape_size_workspace s) (get_workspace_size ss)"

fun get_max_size :: "executor1d \<Rightarrow> executor1d list \<Rightarrow> nat" where
  "get_max_size e [] = scratch_size e"
| "get_max_size e (c # cs) = max (scratch_size c) (get_max_size e cs)"

definition size_workspace :: "fft3d_r2c \<Rightarrow> nat" where
  "size_workspace p =
     max (get_workspace_size (forward_shaper p)) (get_workspace_size (backward_shaper p))
       + get_max_size (executor_r2c p) (executor p)"

definition size_comm_buffers :: "fft3d_r2c \<Rightarrow> nat" where
  "size_comm_buffers p =
     max (get_workspace_size (forward_shaper p)) (get_workspace_size (backward_shaper p))"

definition get_scale_factor :: "fft3d_r2c \<Rightarrow> scale \<Rightarrow> real" where
  "get_scale_factor p scaling =
     (if scaling = symmetric then sqrt (scale_factor p) else scale_factor p)"

text \<open>
  Modelled from the spec: the value the private constructor (declared in the header,
  defined elsewhere) stores in \<^verbatim>\<open>scale_factor\<close>, namely one over the product of the
  three full axis lengths of the global input box.
\<close>

definition index_scale :: "box3d \<Rightarrow> real" where
  "index_scale g = 1 / real_of_int (box_size g 0 * box_size g 1 * box_size g 2)"

text \<open>The spec's wording of the workspace: the communication part and the executor part.\<close>

definition stage_volumes :: "reshape3d option list \<Rightarrow> nat set" where
  "stage_volumes ss = {send_volume s + recv_volume s | s. Some s \<in> set ss}"

definition comm_maximum :: "fft3d_r2c \<Rightarrow> nat" where
  "comm_maximum p =
     Max (insert 0 (stage_volumes (forward_shaper p) \<union> stage_volumes (backward_shaper p)))"

definition scratch_maximum :: "fft3d_r2c \<Rightarrow> nat" where
  "scratch_maximum p = Max (scratch_size ` set (executor_r2c p # executor p))"

subsection \<open>The shortened box of the real-to-complex transform\<close>

text \<open>
  Modelled from the spec: the R2C geometry contract of plan construction; the planner
  (\<^verbatim>\<open>plan_operations\<close>) and \<^verbatim>\<open>box3d::r2c\<close> are defined elsewhere in the library.
  Along the chosen axis the box keeps its lower corner and \<open>\<lfloor>N/2\<rfloor> + 1\<close> indices; a
  partition is a list of boxes, one per rank, pairwise disjoint, whose union is the
  global box; plan construction is rejected with \<open>InvalidPartition\<close> when the input
  boxes do not tile the global input box or the output boxes do not tile the shortened
  box.
\<close>

definition r2c :: "box3d \<Rightarrow> int \<Rightarrow> box3d" where
  "r2c b r = b\<lparr>high := upd3 (high b) r (nth3 (low b) r + (box_size b r div 2 + 1) - 1)\<rparr>"

definition cpp_div :: "int \<Rightarrow> int \<Rightarrow> int" where
  \<comment> \<open>integer division of C++: the quotient is truncated towards zero\<close>
  "cpp_div a b = sgn a * sgn b * (\<bar>a\<bar> div \<bar>b\<bar>)"

definition points :: "box3d \<Rightarrow> (int \<times> int \<times> int) set" where
  "points b =
     {nth3 (low b) 0 .. nth3 (high b) 0} \<times>
     {nth3 (low b) 1 .. nth3 (high b) 1} \<times>
     {nth3 (low b) 2 .. nth3 (high b) 2}"

definition union_of :: "box3d list \<Rightarrow> (int \<times> int \<times> int) set" where
  "union_of P = (\<Union>b\<in>set P. points b)"

fun pairwise_disjoint :: "box3d list \<Rightarrow> bool" where
  "pairwise_disjoint [] = True"
| "pairwise_disjoint (b # bs) =
     ((\<forall>c\<in>set bs. points b \<inter> points c = {}) \<and> pairwise_disjoint bs)"

definition is_partition :: "box3d list \<Rightarrow> box3d \<Rightarrow> bool" where
  "is_partition P G = (union_of P = points G \<and> pairwise_disjoint P)"

datatype upstream = InvalidPartition | CommFailure | ExecutorFailure

record logic_plan3d =
  global_in :: box3d
  global_out :: box3d
  in_shape :: "box3d list"
  out_shape :: "box3d list"
  plan_scale :: real

definition plan_r2c_geometry ::
  "box3d \<Rightarrow> box3d list \<Rightarrow> box3d list \<Rightarrow> int \<Rightarrow> upstream + logic_plan3d" where
  "plan_r2c_geometry G_in P_in P_out r =
     (if \<not> is_partition P_in G_in then Inl InvalidPartition
      else if \<not> is_partition P_out (r2c G_in r) then Inl InvalidPartition
      else Inr \<lparr>global_in = G_in, global_out = r2c G_in r,
                in_shape = P_in, out_shape = P_out, plan_scale = index_scale G_in\<rparr>)"

subsection \<open>Construction\<close>

text \<open>
  The public constructor delegates to the private one and then runs its body:

  \<^verbatim>\<open>fft3d_r2c(inbox, outbox, r2c_direction, comm) :
       fft3d_r2c(plan_operations(mpi::gather_boxes(inbox, outbox, comm), r2c_direction),
                 mpi::comm_rank(comm), comm){
       assert(r2c_direction == 0 or r2c_direction == 1 or r2c_direction == 2);
   }\<close>

  \<^verbatim>\<open>gather_boxes\<close>, \<^verbatim>\<open>comm_rank\<close> and the private constructor are defined outside
  the header and are parameters of the model (\<open>builders\<close>); gathering has no failure
  in the spec, the private constructor may fail with an error of its own
  (\<open>upstream\<close>). \<^verbatim>\<open>assert\<close> is the macro of \<^verbatim>\<open><cassert>\<close>: it stops the program
  when its condition is false, and it expands to nothing when \<^verbatim>\<open>NDEBUG\<close> is defined;
  \<open>assertions\<close> says which of the two builds is meant. A failed assertion on the axis
  is the error \<open>InvalidR2CAxis\<close>. The \<^verbatim>\<open>std::invalid_argument\<close> of the container
  overload further down is \<open>SizeMismatch\<close>, and the \<^verbatim>\<open>std::length_error\<close> of a
  container that cannot be created is \<open>LengthError\<close>. The \<^verbatim>\<open>static_assert\<close> on the
  backend is a condition on the program text; the model describes programs that compiled.
\<close>

datatype error = InvalidR2CAxis | SizeMismatch | LengthError | Upstream upstream

record 'comm builders =
  assertions :: bool
  gather_boxes :: "box3d \<Rightarrow> box3d \<Rightarrow> 'comm \<Rightarrow> box3d list \<times> box3d list"
  global_box :: "box3d list \<Rightarrow> box3d"
  comm_rank :: "'comm \<Rightarrow> int"
  construct :: "logic_plan3d \<Rightarrow> int \<Rightarrow> 'comm \<Rightarrow> upstream + fft3d_r2c"

text \<open>
  Modelled from the spec: \<^verbatim>\<open>plan_operations\<close>, the planner, which is defined elsewhere
  in the library. It fails with \<open>InvalidR2CAxis\<close> when the axis is not 0, 1 or 2, and
  with \<open>InvalidPartition\<close> when the boxes do not tile as the geometry contract above
  asks. The axis is looked at first, since the shortened box that the output boxes are
  held against exists for an axis among 0, 1, 2 only. The spec lists the global input
  box among the planner's inputs and the call in the header passes the gathered boxes
  only; how the global box is obtained from them is the parameter \<open>global_box\<close>.
\<close>

definition plan_operations ::
  "'comm builders \<Rightarrow> box3d list \<times> box3d list \<Rightarrow> int \<Rightarrow> error + logic_plan3d" where
  "plan_operations B boxes r2c_direction =
     (if \<not> (r2c_direction = 0 \<or> r2c_direction = 1 \<or> r2c_direction = 2)
      then Inl InvalidR2CAxis
      else
        (case plan_r2c_geometry (global_box B (fst boxes)) (fst boxes) (snd boxes)
                r2c_direction of
           Inl e \<Rightarrow> Inl (Upstream e)
         | Inr plan \<Rightarrow> Inr plan))"

definition delegate ::
  "'comm builders \<Rightarrow> box3d \<Rightarrow> box3d \<Rightarrow> int \<Rightarrow> 'comm \<Rightarrow> error + fft3d_r2c" where
  "delegate B a_inbox a_outbox r2c_direction comm =
     (case plan_operations B (gather_boxes B a_inbox a_outbox comm) r2c_direction of
        Inl e \<Rightarrow> Inl e
      | Inr plan \<Rightarrow>
          (case construct B plan (comm_rank B comm) comm of
             Inl e \<Rightarrow> Inl (Upstream e)
           | Inr p \<Rightarrow> Inr p))"

definition fft3d_r2c_ctor ::
  "'comm builders \<Rightarrow> box3d \<Rightarrow> box3d \<Rightarrow> int \<Rightarrow> 'comm \<Rightarrow> error + fft3d_r2c" where
  "fft3d_r2c_ctor B a_inbox a_outbox r2c_direction comm =
     (case delegate B a_inbox a_outbox r2c_direction comm of
        Inl e \<Rightarrow> Inl e
      | Inr p \<Rightarrow>
          if assertions B \<and> \<not> (r2c_direction = 0 \<or> r2c_direction = 1 \<or> r2c_direction = 2)
          then Inl InvalidR2CAxis
          else Inr p)"

subsection \<open>Element types accepted at a call site\<close>

text \<open>
  The \<^verbatim>\<open>static_assert\<close>s of the overloads, as predicates on the template arguments.
  The traits \<^verbatim>\<open>is_ccomplex\<close> (single-precision complex types) and \<^verbatim>\<open>is_zcomplex\<close>
  (double-precision complex types) are declared outside the header and are parameters.
\<close>

datatype ctype = c_float | c_double | std_complex ctype | other_type string

record traits =
  is_ccomplex :: "ctype \<Rightarrow> bool"
  is_zcomplex :: "ctype \<Rightarrow> bool"

definition forward_accepts :: "traits \<Rightarrow> ctype \<Rightarrow> ctype \<Rightarrow> bool" where
  "forward_accepts T input_type output_type =
     ((input_type = c_float \<and> is_ccomplex T output_type)
      \<or> (input_type = c_double \<and> is_zcomplex T output_type))"

definition backward_accepts :: "traits \<Rightarrow> ctype \<Rightarrow> ctype \<Rightarrow> bool" where
  "backward_accepts T input_type output_type =
     ((output_type = c_float \<and> is_ccomplex T input_type)
      \<or> (output_type = c_double \<and> is_zcomplex T input_type))"

definition forward_vec_accepts :: "ctype \<Rightarrow> bool" where
  "forward_vec_accepts input_type = (input_type = c_float \<or> input_type = c_double)"

definition backward_vec_accepts :: "traits \<Rightarrow> ctype \<Rightarrow> bool" where
  "backward_vec_accepts T scalar_type = (is_ccomplex T scalar_type \<or> is_zcomplex T scalar_type)"

definition std_traits :: traits where
  \<comment> \<open>the traits restricted to the types of the C++ standard\<close>
  "std_traits = \<lparr>is_ccomplex = (\<lambda>t. t = std_complex c_float),
                 is_zcomplex = (\<lambda>t. t = std_complex c_double)\<rparr>"

subsection \<open>Transforms\<close>

text \<open>
  An array argument is the list of the elements of the array the pointer points into; a
  \<^verbatim>\<open>buffer_container\<close> is a list too, created with a given number of
  value-initialised elements, as \<^verbatim>\<open>std::vector\<close> does.
\<close>

definition buffer_container :: "nat \<Rightarrow> 'a::zero list" where
  "buffer_container n = replicate n 0"

definition overwrite :: "'a list \<Rightarrow> 'a list \<Rightarrow> 'a list" where
  \<comment> \<open>a callee that holds a raw pointer overwrites elements; it cannot change their number\<close>
  "overwrite old new = take (length old) new @ drop (length new) old"

text \<open>
  The two \<^verbatim>\<open>standard_transform\<close> overloads with a workspace argument are only
  declared in the header. What they compute is a parameter of the model (\<open>pipeline\<close>):
  whether the run failed, and what it wrote to the output array and to the workspace.
\<close>

record 'a run =
  failed :: "upstream option"
  written :: "'a list"
  scratch_written :: "complex list"

record pipeline =
  r2c_forward ::
    "fft3d_r2c \<Rightarrow> real list \<Rightarrow> complex list \<Rightarrow> complex list \<Rightarrow> scale \<Rightarrow> complex run"
  r2c_backward ::
    "fft3d_r2c \<Rightarrow> complex list \<Rightarrow> real list \<Rightarrow> complex list \<Rightarrow> scale \<Rightarrow> real run"

record 'a result =
  failure :: "upstream option"
  output_after :: "'a list"
  plan_after :: fft3d_r2c

record 'a effects = "'a result" +
  workspace_after :: "complex list"

text \<open>
  Modelled from the spec: the effect of these two overloads on the plan. The language
  would let a \<^verbatim>\<open>const\<close> member function alter the reshape and executor objects behind
  the owning pointers (though not the \<^verbatim>\<open>const\<close> members \<^verbatim>\<open>pinbox\<close>, \<^verbatim>\<open>poutbox\<close>
  and \<^verbatim>\<open>scale_factor\<close>); the spec has the plan immutable once constructed, its reshape
  descriptors and executors fixed, so the plan after a run is the plan before it.
\<close>

definition bounded :: "fft3d_r2c \<Rightarrow> 'a list \<Rightarrow> complex list \<Rightarrow> 'a run \<Rightarrow> 'a effects" where
  "bounded p output workspace e =
     \<lparr>failure = failed e,
      output_after = overwrite output (written e),
      plan_after = p,
      workspace_after = overwrite workspace (scratch_written e)\<rparr>"

definition without_workspace :: "'a effects \<Rightarrow> 'a result" where
  "without_workspace e =
     \<lparr>failure = failure e, output_after = output_after e, plan_after = plan_after e\<rparr>"

text \<open>\<^verbatim>\<open>standard_transform(input, output, workspace, scaling)\<close>, real to complex and back.\<close>

definition standard_transform_ws_fwd ::
  "pipeline \<Rightarrow> fft3d_r2c \<Rightarrow> real list \<Rightarrow> complex list \<Rightarrow> complex list \<Rightarrow> scale
     \<Rightarrow> complex effects" where
  "standard_transform_ws_fwd K p input output workspace scaling =
     bounded p output workspace (r2c_forward K p input output workspace scaling)"

definition standard_transform_ws_bwd ::
  "pipeline \<Rightarrow> fft3d_r2c \<Rightarrow> complex list \<Rightarrow> real list \<Rightarrow> complex list \<Rightarrow> scale
     \<Rightarrow> real effects" where
  "standard_transform_ws_bwd K p input output workspace scaling =
     bounded p output workspace (r2c_backward K p input output workspace scaling)"

text \<open>
  \<^verbatim>\<open>standard_transform(input, output, scaling)\<close>: allocates
  \<^verbatim>\<open>workspace(size_workspace())\<close> and calls the overload above; the workspace is
  destroyed on return.
\<close>

definition standard_transform_fwd ::
  "pipeline \<Rightarrow> fft3d_r2c \<Rightarrow> real list \<Rightarrow> complex list \<Rightarrow> scale \<Rightarrow> complex result" where
  "standard_transform_fwd K p input output scaling =
     (let workspace = buffer_container (size_workspace p)
      in without_workspace (standard_transform_ws_fwd K p input output workspace scaling))"

definition standard_transform_bwd ::
  "pipeline \<Rightarrow> fft3d_r2c \<Rightarrow> complex list \<Rightarrow> real list \<Rightarrow> scale \<Rightarrow> real result" where
  "standard_transform_bwd K p input output scaling =
     (let workspace = buffer_container (size_workspace p)
      in without_workspace (standard_transform_ws_bwd K p input output workspace scaling))"

text \<open>
  The public overloads on arrays. \<^verbatim>\<open>convert_to_standard\<close> only casts a pointer to the
  standard type of the same layout, so it is the identity here.
\<close>

definition forward ::
  "pipeline \<Rightarrow> fft3d_r2c \<Rightarrow> real list \<Rightarrow> complex list \<Rightarrow> scale \<Rightarrow> complex result" where
  "forward K p input output scaling = standard_transform_fwd K p input output scaling"

definition forward_ws ::
  "pipeline \<Rightarrow> fft3d_r2c \<Rightarrow> real list \<Rightarrow> complex list \<Rightarrow> complex list \<Rightarrow> scale
     \<Rightarrow> complex effects" where
  "forward_ws K p input output workspace scaling =
     standard_transform_ws_fwd K p input output workspace scaling"

definition backward ::
  "pipeline \<Rightarrow> fft3d_r2c \<Rightarrow> complex list \<Rightarrow> real list \<Rightarrow> scale \<Rightarrow> real result" where
  "backward K p input output scaling = standard_transform_bwd K p input output scaling"

definition backward_ws ::
  "pipeline \<Rightarrow> fft3d_r2c \<Rightarrow> complex list \<Rightarrow> real list \<Rightarrow> complex list \<Rightarrow> scale
     \<Rightarrow> real effects" where
  "backward_ws K p input output workspace scaling =
     standard_transform_ws_bwd K p input output workspace scaling"

text \<open>
  The overloads on containers. They return the new container, or the error, together
  with the plan afterwards (they are not \<^verbatim>\<open>const\<close>).

  In \<^verbatim>\<open>input.size() < size_inbox()\<close> the left side is a \<^verbatim>\<open>size_t\<close> and the right
  side an \<^verbatim>\<open>int\<close>, which the language converts to \<^verbatim>\<open>size_t\<close> before comparing: a
  negative \<^verbatim>\<open>int\<close> becomes a number just below \<open>2^64\<close>. The constructor of the
  container takes a \<^verbatim>\<open>size_t\<close> too, so an \<^verbatim>\<open>int\<close> that is negative asks for more
  elements than a container can have and the constructor throws. The backward overload
  has no comparison of sizes.
\<close>

definition to_size_t :: "32 word \<Rightarrow> 64 word" where
  "to_size_t n = word_of_int (sint n)"

definition vec_size :: "'a list \<Rightarrow> 64 word" where
  "vec_size xs = of_nat (length xs)"

definition new_container :: "32 word \<Rightarrow> error + 'a::zero list" where
  "new_container n =
     (if sint n < 0 then Inl LengthError else Inr (buffer_container (nat (sint n))))"

definition forward_vec ::
  "pipeline \<Rightarrow> fft3d_r2c \<Rightarrow> real list \<Rightarrow> scale \<Rightarrow> (error + complex list) \<times> fft3d_r2c" where
  "forward_vec K p input scaling =
     (if vec_size input < to_size_t (size_inbox p) then (Inl SizeMismatch, p)
      else
        (case new_container (size_outbox p) of
           Inl x \<Rightarrow> (Inl x, p)
         | Inr output \<Rightarrow>
             let e = forward K p input output scaling
             in (case failure e of
                   Some u \<Rightarrow> (Inl (Upstream u), plan_after e)
                 | None \<Rightarrow> (Inr (output_after e), plan_after e))))"

definition backward_vec ::
  "pipeline \<Rightarrow> fft3d_r2c \<Rightarrow> complex list \<Rightarrow> scale \<Rightarrow> (error + real list) \<times> fft3d_r2c" where
  "backward_vec K p input scaling =
     (case new_container (size_inbox p) of
        Inl x \<Rightarrow> (Inl x, p)
      | Inr result \<Rightarrow>
          let e = backward K p input result scaling
          in (case failure e of
                Some u \<Rightarrow> (Inl (Upstream u), plan_after e)
              | None \<Rightarrow> (Inr (output_after e), plan_after e)))"

subsection \<open>Sequences of calls\<close>




subsection \<open>Concrete instances\<close>

text \<open>
  A plan of one rank over the global box of 4 x 2 x 2 indices, shortened along axis 0;
  the same plan with an inbox of \<open>2^31\<close> and of \<open>2^32\<close> indices; a pipeline that
  copies input to output; builders for a communicator of one rank, whose global box is
  the box of that rank.
\<close>

definition plan_422 :: fft3d_r2c where
  "plan_422 =
     \<lparr>pinbox = world 4 2 2, poutbox = r2c (world 4 2 2) 0,
      scale_factor = index_scale (world 4 2 2),
      forward_shaper = [Some \<lparr>send_volume = 16, recv_volume = 16\<rparr>, None,
                        Some \<lparr>send_volume = 12, recv_volume = 12\<rparr>, None],
      backward_shaper = [None, Some \<lparr>send_volume = 12, recv_volume = 12\<rparr>,
                         None, Some \<lparr>send_volume = 16, recv_volume = 20\<rparr>],
      executor_r2c = \<lparr>scratch_size = 4\<rparr>,
      executor = [\<lparr>scratch_size = 2\<rparr>, \<lparr>scratch_size = 6\<rparr>]\<rparr>"

definition plan_2_31 :: fft3d_r2c where
  "plan_2_31 = plan_422\<lparr>pinbox := world 2048 1024 1024\<rparr>"

definition plan_2_32 :: fft3d_r2c where
  "plan_2_32 = plan_422\<lparr>pinbox := world 65536 65536 1\<rparr>"

definition copy_pipeline :: pipeline where
  "copy_pipeline =
     \<lparr>r2c_forward = (\<lambda>p i out w s.
        \<lparr>failed = None, written = map (\<lambda>x. Complex x 0) i, scratch_written = w\<rparr>),
      r2c_backward = (\<lambda>p i out w s.
        \<lparr>failed = None, written = map Re i, scratch_written = w\<rparr>)\<rparr>"

definition one_rank :: "bool \<Rightarrow> unit builders" where
  "one_rank checked =
     \<lparr>assertions = checked,
      gather_boxes = (\<lambda>a_inbox a_outbox comm. ([a_inbox], [a_outbox])),
      global_box = (\<lambda>boxes. case boxes of [] \<Rightarrow> world 0 0 0 | b # bs \<Rightarrow> b),
      comm_rank = (\<lambda>comm. 0),
      construct = (\<lambda>plan rank comm.
         Inr (plan_422\<lparr>pinbox := global_in plan, poutbox := global_out plan,
                       scale_factor := plan_scale plan\<rparr>))\<rparr>"

text \<open>
  Two ranks that split the global box of 4 x 1 x 2 indices along axis 2: their input
  boxes, and their output boxes for the transform shortened along axis 0.
\<close>

definition slabs_in :: "box3d list" where
  "slabs_in = [\<lparr>low = (0, 0, 0), high = (3, 0, 0), order = (0, 1, 2)\<rparr>,
               \<lparr>low = (0, 0, 1), high = (3, 0, 1), order = (0, 1, 2)\<rparr>]"

definition slabs_out :: "box3d list" where
  "slabs_out = [\<lparr>low = (0, 0, 0), high = (2, 0, 0), order = (0, 1, 2)\<rparr>,
                \<lparr>low = (0, 0, 1), high = (2, 0, 1), order = (0, 1, 2)\<rparr>]"

section \<open>Properties\<close>

lemma box_size_world:
  "box_size (world X Y Z) 0 = X" "box_size (world X Y Z) 1 = Y" "box_size (world X Y Z) 2 = Z"
  by (simp_all add: box_size_def world_def)

lemma finite_stage_volumes: "finite (stage_volumes ss)"
proof -
  have "stage_volumes ss \<subseteq> (\<lambda>s. send_volume s + recv_volume s) ` {s. Some s \<in> set ss}"
    by (auto simp: stage_volumes_def)
  moreover have "finite {s. Some s \<in> set ss}"
  proof -
    have "{s. Some s \<in> set ss} \<subseteq> the ` set ss" by force
    then show ?thesis by (rule finite_subset) simp
  qed
  ultimately show ?thesis by (metis finite_imageI finite_subset)
qed

lemma stage_volumes_simps:
  "stage_volumes [] = {}"
  "stage_volumes (None # ss) = stage_volumes ss"
  "stage_volumes (Some s # ss) = insert (send_volume s + recv_volume s) (stage_volumes ss)"
  by (auto simp: stage_volumes_def)

lemma get_workspace_size_Max:
  "get_workspace_size ss = Max (insert 0 (stage_volumes ss))"
proof (induction ss rule: get_workspace_size.induct)
  case 1
  show ?case by (simp add: stage_volumes_simps)
next
  case (2 ss)
  then show ?case by (simp add: stage_volumes_simps)
next
  case (3 s ss)
  have fin: "finite (insert 0 (stage_volumes ss))"
    by (simp add: finite_stage_volumes)
  have "Max (insert 0 (stage_volumes (Some s # ss)))
          = Max (insert (send_volume s + recv_volume s) (insert 0 (stage_volumes ss)))"
    by (simp add: stage_volumes_simps insert_commute)
  also have "\<dots> = max (send_volume s + recv_volume s) (Max (insert 0 (stage_volumes ss)))"
    using fin by (subst Max_insert) auto
  finally show ?case using 3 by (simp add: reshape_size_workspace_def)
qed

lemma get_max_size_Max:
  "get_max_size e cs = Max (scratch_size ` set (e # cs))"
proof (induction cs)
  case Nil
  show ?case by simp
next
  case (Cons c cs)
  have "Max (scratch_size ` set (e # c # cs))
          = Max (insert (scratch_size c) (scratch_size ` set (e # cs)))"
    by (simp add: insert_commute)
  also have "\<dots> = max (scratch_size c) (Max (scratch_size ` set (e # cs)))"
    by (subst Max_insert) auto
  finally show ?case using Cons by simp
qed

lemma comm_maximum_eq:
  "max (get_workspace_size (forward_shaper p)) (get_workspace_size (backward_shaper p))
     = comm_maximum p"
proof -
  let ?F = "insert 0 (stage_volumes (forward_shaper p))"
  let ?B = "insert 0 (stage_volumes (backward_shaper p))"
  have "Max (?F \<union> ?B) = max (Max ?F) (Max ?B)"
    by (rule Max_Un) (simp_all add: finite_stage_volumes)
  moreover have "?F \<union> ?B
      = insert 0 (stage_volumes (forward_shaper p) \<union> stage_volumes (backward_shaper p))"
    by auto
  ultimately show ?thesis
    by (simp add: comm_maximum_def get_workspace_size_Max)
qed

subsection \<open>Containers, and the two integer types of a size\<close>

lemma length_overwrite: "length (overwrite old new) = length old"
  by (simp add: overwrite_def)

lemma length_buffer_container: "length (buffer_container n) = n"
  by (simp add: buffer_container_def)

lemma output_after_forward:
  "length (output_after (forward K p i out s)) = length out"
  by (simp add: forward_def standard_transform_fwd_def standard_transform_ws_fwd_def
      bounded_def without_workspace_def length_overwrite Let_def)

lemma output_after_backward:
  "length (output_after (backward K p i out s)) = length out"
  by (simp add: backward_def standard_transform_bwd_def standard_transform_ws_bwd_def
      bounded_def without_workspace_def length_overwrite Let_def)

lemma new_container_Inr:
  "new_container n = Inr xs \<Longrightarrow> 0 \<le> sint n \<and> int (length xs) = sint n"
  by (auto simp: new_container_def length_buffer_container split: if_splits)

lemma new_container_nonneg:
  "0 \<le> sint n \<Longrightarrow> new_container n = Inr (buffer_container (nat (sint n)))"
  by (simp add: new_container_def)

lemma sint_int32:
  "- (2 ^ 31) \<le> c \<Longrightarrow> c < 2 ^ 31 \<Longrightarrow> sint (word_of_int c :: 32 word) = c"
  by (simp add: sint_sbintrunc' signed_take_bit_int_eq_self)

lemma uint_vec_size: "length xs < 2 ^ 64 \<Longrightarrow> uint (vec_size xs) = int (length xs)"
  by (simp add: vec_size_def uint_nat unat_of_nat)

lemma sint_32_bounds: "- (2 ^ 31) \<le> sint (n :: 32 word)" "sint (n :: 32 word) < 2 ^ 31"
  using sint_ge [of n] sint_lt [of n] by simp_all

lemma uint_to_size_t: "uint (to_size_t n) = sint n mod 2 ^ 64"
  unfolding to_size_t_def uint_word_of_int by simp

lemma uint_to_size_t_nonneg: "0 \<le> sint n \<Longrightarrow> uint (to_size_t n) = sint n"
  using sint_32_bounds(2) [of n] by (simp add: uint_to_size_t)

lemma uint_to_size_t_neg: "sint n < 0 \<Longrightarrow> uint (to_size_t n) = 2 ^ 64 + sint n"
proof -
  assume neg: "sint n < 0"
  have lo: "- (2 ^ 31) \<le> sint n" by (rule sint_32_bounds)
  have "uint (to_size_t n) = (sint n + 2 ^ 64) mod 2 ^ 64"
    by (simp add: uint_to_size_t)
  also have "\<dots> = sint n + 2 ^ 64"
    using neg lo by (intro mod_pos_pos_trivial) simp_all
  finally show ?thesis by simp
qed

lemma short_nonneg:
  assumes "0 \<le> sint n" and "length xs < 2 ^ 64"
  shows "vec_size xs < to_size_t n \<longleftrightarrow> int (length xs) < sint n"
  using assms by (simp add: word_less_def uint_vec_size uint_to_size_t_nonneg)

lemma short_neg:
  assumes "sint n < 0" and "length xs < 2 ^ 63"
  shows "vec_size xs < to_size_t n"
proof -
  have l: "length xs < 2 ^ 64"
    using assms(2) by simp
  have "int (length xs) < 2 ^ 63"
    using assms(2) by (metis of_nat_less_iff of_nat_numeral of_nat_power)
  moreover have "- (2 ^ 31) \<le> sint n" by (rule sint_32_bounds)
  ultimately have "int (length xs) < 2 ^ 64 + sint n"
    by simp
  then show ?thesis
    using assms(1) l by (simp add: word_less_def uint_vec_size uint_to_size_t_neg)
qed

lemma size_inbox_count:
  "0 \<le> count (pinbox p) \<Longrightarrow> count (pinbox p) < 2 ^ 31 \<Longrightarrow> sint (size_inbox p) = count (pinbox p)"
  by (simp add: size_inbox_def sint_int32)

lemma size_outbox_count:
  "0 \<le> count (poutbox p) \<Longrightarrow> count (poutbox p) < 2 ^ 31 \<Longrightarrow> sint (size_outbox p) = count (poutbox p)"
  by (simp add: size_outbox_def sint_int32)

lemma count_nonneg: "0 \<le> count b"
  by (auto simp: count_def box_empty_def)

lemma failure_forward:
  "failure (forward K p i out s)
     = failed (r2c_forward K p i out (buffer_container (size_workspace p)) s)"
  by (simp add: forward_def standard_transform_fwd_def standard_transform_ws_fwd_def
      bounded_def without_workspace_def Let_def)

lemma failure_backward:
  "failure (backward K p i out s)
     = failed (r2c_backward K p i out (buffer_container (size_workspace p)) s)"
  by (simp add: backward_def standard_transform_bwd_def standard_transform_ws_bwd_def
      bounded_def without_workspace_def Let_def)

lemma failure_forward_ws:
  "failure (forward_ws K p i out w s) = failed (r2c_forward K p i out w s)"
  by (simp add: forward_ws_def standard_transform_ws_fwd_def bounded_def)

lemma failure_backward_ws:
  "failure (backward_ws K p i out w s) = failed (r2c_backward K p i out w s)"
  by (simp add: backward_ws_def standard_transform_ws_bwd_def bounded_def)

lemma forward_vec_short:
  "vec_size input < to_size_t (size_inbox p) \<Longrightarrow> forward_vec K p input s = (Inl SizeMismatch, p)"
  by (simp add: forward_vec_def)

lemma forward_vec_mismatch_iff:
  "fst (forward_vec K p input s) = Inl SizeMismatch \<longleftrightarrow> vec_size input < to_size_t (size_inbox p)"
  by (auto simp: forward_vec_def new_container_def Let_def split: sum.splits option.splits)

subsection \<open>The concrete instances, evaluated\<close>

lemma size_422: "size_inbox plan_422 = 16" "size_outbox plan_422 = 12"
  by (simp_all add: size_inbox_def size_outbox_def plan_422_def count_def box_empty_def
      box_size_def world_def r2c_def)

lemma count_2_31: "count (pinbox plan_2_31) = 2 ^ 31"
  by (simp add: plan_2_31_def count_def box_empty_def box_size_def world_def)

lemma size_2_31: "sint (size_inbox plan_2_31) = - (2 ^ 31)"
  by (simp add: size_inbox_def count_2_31)

lemma size_2_32: "size_inbox plan_2_32 = 0"
  by (simp add: size_inbox_def plan_2_32_def count_def box_empty_def box_size_def world_def)


lemma fwd_copy:
  "forward copy_pipeline p i out s =
     \<lparr>failure = None, output_after = overwrite out (map (\<lambda>x. Complex x 0) i), plan_after = p\<rparr>"
  by (simp add: forward_def standard_transform_fwd_def standard_transform_ws_fwd_def
      bounded_def without_workspace_def copy_pipeline_def Let_def)

lemma bwd_copy:
  "backward copy_pipeline p i out s =
     \<lparr>failure = None, output_after = overwrite out (map Re i), plan_after = p\<rparr>"
  by (simp add: backward_def standard_transform_bwd_def standard_transform_ws_bwd_def
      bounded_def without_workspace_def copy_pipeline_def Let_def)

text \<open>
  With an inbox of \<open>2^32\<close> indices \<^verbatim>\<open>size_inbox()\<close> is 0 and the container overload
  of forward takes an empty input; with an inbox of \<open>2^31\<close> indices it is negative and
  the container overload of backward cannot create its result.
\<close>

lemma forward_vec_at_2_32:
  "fst (forward_vec copy_pipeline plan_2_32 [] none) = Inr (replicate 12 0)"
proof -
  have "size_outbox plan_2_32 = 12"
    by (simp add: size_outbox_def plan_2_32_def plan_422_def count_def box_empty_def
        box_size_def world_def r2c_def)
  then show ?thesis
    by (simp add: forward_vec_def size_2_32 vec_size_def to_size_t_def new_container_def
        fwd_copy overwrite_def buffer_container_def)
qed

lemma backward_vec_at_2_31:
  "fst (backward_vec copy_pipeline plan_2_31 input none) = Inl LengthError"
  by (simp add: backward_vec_def new_container_def size_2_31)

subsection \<open>Scale factors\<close>

text \<open>
  C1, as the code has it. For a plan whose \<^verbatim>\<open>scale_factor\<close> is one over the product
  of the full axis lengths \<open>X\<close>, \<open>Y\<close>, \<open>Z\<close> of the global input box,
  \<^verbatim>\<open>get_scale_factor(full)\<close> is \<open>1/(X Y Z)\<close>, \<^verbatim>\<open>get_scale_factor(symmetric)\<close> is
  \<open>1/\<surd>(X Y Z)\<close>, and \<^verbatim>\<open>get_scale_factor(none)\<close> is \<open>1/(X Y Z)\<close> as well: the
  query distinguishes \<^verbatim>\<open>symmetric\<close> from everything else and has no case that
  returns 1.
\<close>

theorem C1_scale_factors:
  "get_scale_factor (p\<lparr>scale_factor := index_scale (world X Y Z)\<rparr>) full
       = 1 / real_of_int (X * Y * Z)
   \<and> get_scale_factor (p\<lparr>scale_factor := index_scale (world X Y Z)\<rparr>) symmetric
       = 1 / sqrt (real_of_int (X * Y * Z))
   \<and> get_scale_factor (p\<lparr>scale_factor := index_scale (world X Y Z)\<rparr>) none
       = 1 / real_of_int (X * Y * Z)"
  by (simp add: get_scale_factor_def index_scale_def box_size_world real_sqrt_divide)

text \<open>
  C1 as stated asks for \<^verbatim>\<open>get_scale_factor(none) = 1\<close>. On the plan over the box of
  4 x 2 x 2 indices the query returns 1/16.
\<close>

theorem C1_none_is_not_one:
  "get_scale_factor plan_422 none = 1 / 16 \<and> get_scale_factor plan_422 none \<noteq> 1"
  by (simp add: get_scale_factor_def plan_422_def index_scale_def box_size_world)

subsection \<open>Workspace sizes\<close>

text \<open>
  C6. \<^verbatim>\<open>size_workspace()\<close> is the largest send volume plus receive volume over the
  forward and backward reshape stages, plus the largest scratch size over the R2C and
  C2C executors; \<^verbatim>\<open>size_comm_buffers()\<close> is the first of the two summands alone.
\<close>

theorem C6_size_workspace:
  "size_workspace p = comm_maximum p + scratch_maximum p
   \<and> size_comm_buffers p = comm_maximum p"
  by (simp add: size_workspace_def size_comm_buffers_def comm_maximum_eq
      get_max_size_Max scratch_maximum_def)

text \<open>C6 on the plan over 4 x 2 x 2 indices: 36 for communication and 6 for scratch.\<close>

theorem C6_size_workspace_witness:
  "comm_maximum plan_422 + scratch_maximum plan_422 = 42 \<and> comm_maximum plan_422 = 36"
  using C6_size_workspace [of plan_422]
  by (simp add: size_workspace_def size_comm_buffers_def plan_422_def
      reshape_size_workspace_def)

subsection \<open>Element types\<close>

text \<open>
  C5. A forward call on arrays compiles exactly when the input type is \<^verbatim>\<open>float\<close>
  and the output type is a single-precision complex type, or the input type is
  \<^verbatim>\<open>double\<close> and the output type is a double-precision complex type; a backward call
  exactly with the converse pairing. In particular a complex or any other input type to
  forward, and a complex or any other output type of backward, is refused, and with the
  complex types of the standard library the accepted forward pairs are
  (\<^verbatim>\<open>float\<close>, \<^verbatim>\<open>std::complex<float>\<close>) and (\<^verbatim>\<open>double\<close>, \<^verbatim>\<open>std::complex<double>\<close>).
  The container overload of forward refuses a complex input type as well, and the
  container overload of backward takes complex input only.
\<close>

theorem C5_call_site_types:
  "(forward_accepts T i out \<longleftrightarrow>
      (i = c_float \<and> is_ccomplex T out) \<or> (i = c_double \<and> is_zcomplex T out))
   \<and> (backward_accepts T i out \<longleftrightarrow>
      (out = c_float \<and> is_ccomplex T i) \<or> (out = c_double \<and> is_zcomplex T i))
   \<and> \<not> forward_accepts T (std_complex t) out
   \<and> \<not> forward_accepts T (other_type n) out
   \<and> \<not> backward_accepts T i (std_complex t)
   \<and> \<not> backward_accepts T i (other_type n)
   \<and> (forward_accepts std_traits i out \<longleftrightarrow>
        (i, out) \<in> {(c_float, std_complex c_float), (c_double, std_complex c_double)})
   \<and> (backward_accepts std_traits i out \<longleftrightarrow>
        (i, out) \<in> {(std_complex c_float, c_float), (std_complex c_double, c_double)})
   \<and> \<not> forward_vec_accepts (std_complex t)
   \<and> \<not> forward_vec_accepts (other_type n)
   \<and> (backward_vec_accepts std_traits i \<longleftrightarrow>
        i \<in> {std_complex c_float, std_complex c_double})"
  by (auto simp: forward_accepts_def backward_accepts_def std_traits_def
      forward_vec_accepts_def backward_vec_accepts_def)

subsection \<open>Sizes and size checks of the container overloads\<close>

text \<open>
  C9. Whenever the container overload of forward returns a container, it has exactly
  \<^verbatim>\<open>size_outbox()\<close> elements, and whenever the container overload of backward returns
  a container, it has exactly \<^verbatim>\<open>size_inbox()\<close> elements, however long the input
  container is. An input is accepted, and a container returned, when the comparison of
  sizes lets it pass (forward only), the \<^verbatim>\<open>int\<close> that sizes the new container is not
  negative, and the transform itself does not fail.
\<close>

theorem C9_container_sizes:
  "(\<forall>out. fst (forward_vec K p input s) = Inr out \<longrightarrow> int (length out) = sint (size_outbox p))
   \<and> (\<forall>res. fst (backward_vec K p cinput s) = Inr res
        \<longrightarrow> int (length res) = sint (size_inbox p))
   \<and> (\<not> vec_size input < to_size_t (size_inbox p) \<and> 0 \<le> sint (size_outbox p)
        \<and> failure (forward K p input (buffer_container (nat (sint (size_outbox p)))) s) = None
      \<longrightarrow> (\<exists>out. fst (forward_vec K p input s) = Inr out))
   \<and> (0 \<le> sint (size_inbox p)
        \<and> failure (backward K p cinput (buffer_container (nat (sint (size_inbox p)))) s) = None
      \<longrightarrow> (\<exists>res. fst (backward_vec K p cinput s) = Inr res))"
proof -
  have f: "int (length out) = sint (size_outbox p)"
    if "fst (forward_vec K p input s) = Inr out" for out
  proof -
    from that obtain buf where buf: "new_container (size_outbox p) = Inr buf"
      and out: "out = output_after (forward K p input buf s)"
      by (auto simp: forward_vec_def Let_def split: if_splits sum.splits option.splits)
    from new_container_Inr [OF buf] show ?thesis
      by (simp add: out output_after_forward)
  qed
  have b: "int (length res) = sint (size_inbox p)"
    if "fst (backward_vec K p cinput s) = Inr res" for res
  proof -
    from that obtain buf where buf: "new_container (size_inbox p) = Inr buf"
      and res: "res = output_after (backward K p cinput buf s)"
      by (auto simp: backward_vec_def Let_def split: sum.splits option.splits)
    from new_container_Inr [OF buf] show ?thesis
      by (simp add: res output_after_backward)
  qed
  have fe: "\<exists>out. fst (forward_vec K p input s) = Inr out"
    if "\<not> vec_size input < to_size_t (size_inbox p)" "0 \<le> sint (size_outbox p)"
      "failure (forward K p input (buffer_container (nat (sint (size_outbox p)))) s) = None"
    using that by (simp add: forward_vec_def new_container_nonneg Let_def)
  have be: "\<exists>res. fst (backward_vec K p cinput s) = Inr res"
    if "0 \<le> sint (size_inbox p)"
      "failure (backward K p cinput (buffer_container (nat (sint (size_inbox p)))) s) = None"
    using that by (simp add: backward_vec_def new_container_nonneg Let_def)
  from f b fe be show ?thesis by blast
qed

text \<open>
  C9 on the plan over 4 x 2 x 2 indices (16 real inputs, 12 complex outputs), with input
  containers of 20 and 30 elements.
\<close>

theorem C9_container_sizes_witness:
  "\<not> vec_size (replicate 20 (1::real)) < to_size_t (size_inbox plan_422)
   \<and> 0 \<le> sint (size_outbox plan_422) \<and> 0 \<le> sint (size_inbox plan_422)
   \<and> fst (forward_vec copy_pipeline plan_422 (replicate 20 1) none) = Inr (replicate 12 1)
   \<and> int (length (replicate 12 (1::complex))) = sint (size_outbox plan_422)
   \<and> fst (backward_vec copy_pipeline plan_422 (replicate 30 1) none) = Inr (replicate 16 1)
   \<and> int (length (replicate 16 (1::real))) = sint (size_inbox plan_422)"
  using C9_container_sizes [where K = copy_pipeline and p = plan_422 and input = "replicate 20 1"
      and s = none and cinput = "replicate 30 1"]
  by (simp add: forward_vec_def backward_vec_def new_container_def size_422 fwd_copy bwd_copy
      overwrite_def buffer_container_def Let_def one_complex.code vec_size_def to_size_t_def)

text \<open>
  C4, as the code has it. The container overload of forward fails with
  \<open>SizeMismatch\<close> exactly when \<^verbatim>\<open>input.size()\<close> is below \<^verbatim>\<open>size_inbox()\<close> converted
  to \<^verbatim>\<open>size_t\<close>, and then nothing else happens. While \<^verbatim>\<open>size_inbox()\<close> is not
  negative, which it is for every inbox of fewer than \<open>2^31\<close> indices, that is: exactly
  when the input container has fewer than \<^verbatim>\<open>size_inbox()\<close> elements; when it is
  negative, every input container is refused. The overloads on arrays, with or without a
  workspace, receive no lengths and compare none: whether they fail is what the
  transform underneath reports.
\<close>

theorem C4_forward_vec_rejects:
  "(fst (forward_vec K p input s) = Inl SizeMismatch
      \<longleftrightarrow> vec_size input < to_size_t (size_inbox p))
   \<and> (vec_size input < to_size_t (size_inbox p)
      \<longrightarrow> forward_vec K p input s = (Inl SizeMismatch, p))
   \<and> (0 \<le> sint (size_inbox p) \<and> length input < 2 ^ 64
      \<longrightarrow> (fst (forward_vec K p input s) = Inl SizeMismatch
            \<longleftrightarrow> int (length input) < sint (size_inbox p)))
   \<and> (sint (size_inbox p) < 0 \<and> length input < 2 ^ 63
      \<longrightarrow> forward_vec K p input s = (Inl SizeMismatch, p))
   \<and> (count (pinbox p) < 2 ^ 31 \<longrightarrow> sint (size_inbox p) = count (pinbox p))
   \<and> failure (forward K p i out s)
       = failed (r2c_forward K p i out (buffer_container (size_workspace p)) s)
   \<and> failure (forward_ws K p i out w s) = failed (r2c_forward K p i out w s)
   \<and> failure (backward K p ci rout s)
       = failed (r2c_backward K p ci rout (buffer_container (size_workspace p)) s)
   \<and> failure (backward_ws K p ci rout w s) = failed (r2c_backward K p ci rout w s)"
proof -
  have a: "fst (forward_vec K p input s) = Inl SizeMismatch \<longleftrightarrow> int (length input) < sint (size_inbox p)"
    if "0 \<le> sint (size_inbox p)" "length input < 2 ^ 64"
    using short_nonneg [OF that] by (simp add: forward_vec_mismatch_iff)
  have b: "forward_vec K p input s = (Inl SizeMismatch, p)"
    if "sint (size_inbox p) < 0" "length input < 2 ^ 63"
    using short_neg [OF that] by (rule forward_vec_short)
  have c: "sint (size_inbox p) = count (pinbox p)" if "count (pinbox p) < 2 ^ 31"
    using that count_nonneg [of "pinbox p"] by (rule_tac size_inbox_count) simp_all
  show ?thesis
    using a b c forward_vec_mismatch_iff [of K p input s] forward_vec_short [of input p K s]
    by (simp only: failure_forward failure_backward failure_forward_ws failure_backward_ws)
      blast
qed

text \<open>
  C4 as amended, on an input container of 3 elements where 16 are needed, and on an
  inbox of \<open>2^31\<close> indices.
\<close>

theorem C4_forward_vec_rejects_witness:
  "0 \<le> sint (size_inbox plan_422) \<and> length [1, 2, 3 :: real] < 2 ^ 64
   \<and> int (length [1, 2, 3 :: real]) < sint (size_inbox plan_422)
   \<and> forward_vec copy_pipeline plan_422 [1, 2, 3] none = (Inl SizeMismatch, plan_422)
   \<and> sint (size_inbox plan_2_31) < 0
   \<and> forward_vec copy_pipeline plan_2_31 (replicate 5 1) none = (Inl SizeMismatch, plan_2_31)
   \<and> count (pinbox plan_422) < 2 ^ 31 \<and> count (pinbox plan_422) = 16"
proof -
  have s: "sint (size_inbox plan_422) = 16"
    by (simp add: size_422)
  have l: "length [1, 2, 3 :: real] < 2 ^ 64" "length (replicate 5 (1 :: real)) < 2 ^ 63"
    by simp_all
  have c: "count (pinbox plan_422) < 2 ^ 31"
    by (simp add: plan_422_def count_def box_empty_def box_size_def world_def)
  note t1 = C4_forward_vec_rejects [where K = copy_pipeline and p = plan_422
      and input = "[1, 2, 3]" and s = none]
  note t2 = C4_forward_vec_rejects [where K = copy_pipeline and p = plan_2_31
      and input = "replicate 5 1" and s = none]
  have r1: "forward_vec copy_pipeline plan_422 [1, 2, 3] none = (Inl SizeMismatch, plan_422)"
  proof -
    have "fst (forward_vec copy_pipeline plan_422 [1, 2, 3] none) = Inl SizeMismatch"
      using t1 s l(1) by simp
    then have "vec_size [1, 2, 3 :: real] < to_size_t (size_inbox plan_422)"
      using t1 by blast
    then show ?thesis using t1 by blast
  qed
  have r2: "forward_vec copy_pipeline plan_2_31 (replicate 5 1) none
      = (Inl SizeMismatch, plan_2_31)"
    using t2 size_2_31 l(2) by simp
  have c16: "count (pinbox plan_422) = 16"
    using t1 c s by simp
  from s l r1 r2 c c16 size_2_31 show ?thesis by simp
qed

text \<open>
  C4 as stated asks every overload to reject a buffer that is too small. The container
  overload of backward takes an empty input container where \<^verbatim>\<open>size_outbox()\<close> is 12
  and returns a container; forward on arrays takes empty input and output arrays where
  16 and 12 elements are needed and reports no failure.
\<close>

theorem C4_short_buffers_accepted:
  "int (length ([] :: complex list)) < sint (size_outbox plan_422)
   \<and> fst (backward_vec copy_pipeline plan_422 [] none) = Inr (replicate 16 0)
   \<and> int (length ([] :: real list)) < sint (size_inbox plan_422)
   \<and> failure (forward copy_pipeline plan_422 [] [] none) = None"
  by (simp add: backward_vec_def new_container_def size_422 fwd_copy bwd_copy overwrite_def
      buffer_container_def Let_def)

subsection \<open>With and without a caller's workspace\<close>

text \<open>
  C10. For every input, output and scaling, forward without a workspace has the same
  outcome, the same output array and the same effect on the plan as forward with a
  workspace that is a freshly created container of \<^verbatim>\<open>size_workspace()\<close> complex
  elements; likewise backward.
\<close>

theorem C10_workspace_allocation:
  "forward K p i out s
     = without_workspace (forward_ws K p i out (buffer_container (size_workspace p)) s)
   \<and> output_after (forward K p i out s)
     = output_after (forward_ws K p i out (buffer_container (size_workspace p)) s)
   \<and> backward K p ci rout s
     = without_workspace (backward_ws K p ci rout (buffer_container (size_workspace p)) s)
   \<and> output_after (backward K p ci rout s)
     = output_after (backward_ws K p ci rout (buffer_container (size_workspace p)) s)"
  by (simp add: forward_def backward_def forward_ws_def backward_ws_def
      standard_transform_fwd_def standard_transform_bwd_def without_workspace_def Let_def)

subsection \<open>The geometry of the shortened box\<close>

lemma cpp_div_nonneg: "0 \<le> a \<Longrightarrow> cpp_div a 2 = a div 2"
  by (cases "a = 0") (simp_all add: cpp_div_def)

lemma nth3_upd3:
  "nth3 (upd3 t r v) a = (if (a = r) \<or> (a \<noteq> 0 \<and> a \<noteq> 1 \<and> r \<noteq> 0 \<and> r \<noteq> 1) then v else nth3 t a)"
  by (cases t) auto

lemma box_size_r2c_axis:
  "box_size (r2c b r) r = box_size b r div 2 + 1"
  by (simp add: box_size_def r2c_def nth3_upd3)

lemma box_size_r2c_other:
  "r = 0 \<or> r = 1 \<or> r = 2 \<Longrightarrow> a = 0 \<or> a = 1 \<or> a = 2 \<Longrightarrow> a \<noteq> r
     \<Longrightarrow> box_size (r2c b r) a = box_size b a"
  by (auto simp add: box_size_def r2c_def nth3_upd3)

lemma low_r2c: "low (r2c b r) = low b"
  by (simp add: r2c_def)

lemma plan_r2c_geometry_Inr:
  assumes "plan_r2c_geometry G P_in P_out r = Inr lp"
  shows "global_out lp = r2c G r" "union_of P_out = points (r2c G r)" "pairwise_disjoint P_out"
    "global_in lp = G" "is_partition P_in G"
  using assms by (auto simp: plan_r2c_geometry_def is_partition_def split: if_splits)

text \<open>The spec's scenario S3: 6 x 6 x 6 indices shortened along axis 0.\<close>

lemma r2c_scenario_S3:
  "r2c (world 6 6 6) 0 = \<lparr>low = (0, 0, 0), high = (3, 5, 5), order = (0, 1, 2)\<rparr>"
  by (simp add: r2c_def world_def box_size_def)

lemma r2c_world_412: "r2c (world 4 1 2) 0 = \<lparr>low = (0, 0, 0), high = (2, 0, 1), order = (0, 1, 2)\<rparr>"
  by (simp add: r2c_def world_def box_size_def)

lemma part_in: "is_partition slabs_in (world 4 1 2)"
  by code_simp

lemma part_out: "is_partition slabs_out (r2c (world 4 1 2) 0)"
  by code_simp

lemma plan_412:
  "plan_r2c_geometry (world 4 1 2) slabs_in slabs_out 0 =
     Inr \<lparr>global_in = world 4 1 2, global_out = r2c (world 4 1 2) 0,
          in_shape = slabs_in, out_shape = slabs_out, plan_scale = index_scale (world 4 1 2)\<rparr>"
  by (simp add: plan_r2c_geometry_def part_in part_out)

lemma not_part: "union_of slabs_in \<noteq> points (r2c (world 4 1 2) 0)"
proof -
  have "(3, 0, 0) \<in> union_of slabs_in"
    by (simp add: slabs_in_def union_of_def points_def)
  moreover have "(3, 0, 0) \<notin> points (r2c (world 4 1 2) 0)"
    by (simp add: r2c_world_412 points_def)
  ultimately show ?thesis by blast
qed

text \<open>
  C2. For a global input box of \<open>X\<close> x \<open>Y\<close> x \<open>Z\<close> indices starting at the origin
  and an axis \<open>r\<close> among 0, 1, 2, every plan that is built has a global output box that
  starts at the origin, has \<open>N\<^sub>r/2 + 1\<close> indices along axis \<open>r\<close> (the division of
  C++) and the extent of the input box along the other two axes, and the union of the
  output boxes of the ranks is that box; when the union of the output boxes differs from
  the shortened box, construction is rejected.
\<close>

theorem C2_shortened_box:
  assumes "r = 0 \<or> r = 1 \<or> r = 2" and "1 \<le> X" and "1 \<le> Y" and "1 \<le> Z"
  shows "(\<forall>lp. plan_r2c_geometry (world X Y Z) P_in P_out r = Inr lp \<longrightarrow>
            low (global_out lp) = (0, 0, 0)
            \<and> box_size (global_out lp) r = cpp_div (nth3 (X, Y, Z) r) 2 + 1
            \<and> (\<forall>a\<in>{0, 1, 2}. a \<noteq> r \<longrightarrow> box_size (global_out lp) a = nth3 (X, Y, Z) a)
            \<and> union_of P_out = points (global_out lp))
         \<and> (union_of P_out \<noteq> points (r2c (world X Y Z) r) \<longrightarrow>
              plan_r2c_geometry (world X Y Z) P_in P_out r = Inl InvalidPartition)"
proof -
  have sz: "box_size (world X Y Z) a = nth3 (X, Y, Z) a" if "a = 0 \<or> a = 1 \<or> a = 2" for a
    using that by (auto simp: box_size_world)
  have nn: "0 \<le> nth3 (X, Y, Z) r"
    using assms by auto
  have ok: "low (global_out lp) = (0, 0, 0)
            \<and> box_size (global_out lp) r = cpp_div (nth3 (X, Y, Z) r) 2 + 1
            \<and> (\<forall>a\<in>{0, 1, 2}. a \<noteq> r \<longrightarrow> box_size (global_out lp) a = nth3 (X, Y, Z) a)
            \<and> union_of P_out = points (global_out lp)"
    if lp: "plan_r2c_geometry (world X Y Z) P_in P_out r = Inr lp" for lp
  proof -
    note g = plan_r2c_geometry_Inr(1,2) [OF lp]
    have "low (global_out lp) = (0, 0, 0)"
      by (simp add: g low_r2c world_def)
    moreover have "box_size (global_out lp) r = cpp_div (nth3 (X, Y, Z) r) 2 + 1"
      using sz [OF assms(1)] nn by (simp add: g box_size_r2c_axis cpp_div_nonneg)
    moreover have "box_size (global_out lp) a = nth3 (X, Y, Z) a"
      if "a \<in> {0, 1, 2}" "a \<noteq> r" for a
    proof -
      from that have a: "a = 0 \<or> a = 1 \<or> a = 2" by auto
      show ?thesis
        using box_size_r2c_other [OF assms(1) a that(2)] sz [OF a] by (simp add: g)
    qed
    moreover have "union_of P_out = points (global_out lp)"
      by (simp add: g)
    ultimately show ?thesis by blast
  qed
  have rej: "plan_r2c_geometry (world X Y Z) P_in P_out r = Inl InvalidPartition"
    if "union_of P_out \<noteq> points (r2c (world X Y Z) r)"
    using that by (simp add: plan_r2c_geometry_def is_partition_def)
  from ok rej show ?thesis by blast
qed

text \<open>
  C2 on two ranks over 4 x 1 x 2 indices: the plan is built and its output box has
  3 x 1 x 2 indices; with the unshortened boxes as output boxes it is rejected.
\<close>

theorem C2_shortened_box_witness:
  "plan_r2c_geometry (world 4 1 2) slabs_in slabs_out 0 =
     Inr \<lparr>global_in = world 4 1 2, global_out = r2c (world 4 1 2) 0,
          in_shape = slabs_in, out_shape = slabs_out, plan_scale = index_scale (world 4 1 2)\<rparr>
   \<and> box_size (r2c (world 4 1 2) 0) 0 = 3
   \<and> box_size (r2c (world 4 1 2) 0) 1 = 1
   \<and> box_size (r2c (world 4 1 2) 0) 2 = 2
   \<and> union_of slabs_out = points (r2c (world 4 1 2) 0)
   \<and> union_of slabs_in \<noteq> points (r2c (world 4 1 2) 0)
   \<and> plan_r2c_geometry (world 4 1 2) slabs_in slabs_in 0 = Inl InvalidPartition"
proof -
  let ?lp = "\<lparr>global_in = world 4 1 2, global_out = r2c (world 4 1 2) 0,
          in_shape = slabs_in, out_shape = slabs_out, plan_scale = index_scale (world 4 1 2)\<rparr>"
  have A: "(\<forall>lp. plan_r2c_geometry (world 4 1 2) slabs_in slabs_out 0 = Inr lp \<longrightarrow>
            low (global_out lp) = (0, 0, 0)
            \<and> box_size (global_out lp) 0 = cpp_div (nth3 (4, 1, 2) 0) 2 + 1
            \<and> (\<forall>a\<in>{0, 1, 2}. a \<noteq> 0 \<longrightarrow> box_size (global_out lp) a = nth3 (4, 1, 2) a)
            \<and> union_of slabs_out = points (global_out lp))
         \<and> (union_of slabs_out \<noteq> points (r2c (world 4 1 2) 0) \<longrightarrow>
              plan_r2c_geometry (world 4 1 2) slabs_in slabs_out 0 = Inl InvalidPartition)"
    by (rule C2_shortened_box) simp_all
  have B: "(\<forall>lp. plan_r2c_geometry (world 4 1 2) slabs_in slabs_in 0 = Inr lp \<longrightarrow>
            low (global_out lp) = (0, 0, 0)
            \<and> box_size (global_out lp) 0 = cpp_div (nth3 (4, 1, 2) 0) 2 + 1
            \<and> (\<forall>a\<in>{0, 1, 2}. a \<noteq> 0 \<longrightarrow> box_size (global_out lp) a = nth3 (4, 1, 2) a)
            \<and> union_of slabs_in = points (global_out lp))
         \<and> (union_of slabs_in \<noteq> points (r2c (world 4 1 2) 0) \<longrightarrow>
              plan_r2c_geometry (world 4 1 2) slabs_in slabs_in 0 = Inl InvalidPartition)"
    by (rule C2_shortened_box) simp_all
  from A plan_412
  have C: "box_size (global_out ?lp) 0 = cpp_div (nth3 (4, 1, 2) 0) 2 + 1"
    "\<forall>a\<in>{0, 1, 2}. a \<noteq> 0 \<longrightarrow> box_size (global_out ?lp) a = nth3 (4, 1, 2) a"
    "union_of slabs_out = points (global_out ?lp)"
    by blast+
  have s0: "box_size (r2c (world 4 1 2) 0) 0 = 3"
    using C(1) by (simp add: cpp_div_def)
  have s1: "box_size (r2c (world 4 1 2) 0) 1 = 1"
    using C(2) by simp
  have s2: "box_size (r2c (world 4 1 2) 0) 2 = 2"
    using C(2) by simp
  have u: "union_of slabs_out = points (r2c (world 4 1 2) 0)"
    using C(3) by simp
  have r: "plan_r2c_geometry (world 4 1 2) slabs_in slabs_in 0 = Inl InvalidPartition"
    using B not_part by blast
  from plan_412 s0 s1 s2 u not_part r show ?thesis by blast
qed

subsection \<open>The axis of the real-to-complex transform\<close>

lemma plan_operations_axis:
  "\<not> (r = 0 \<or> r = 1 \<or> r = 2) \<Longrightarrow> plan_operations B boxes r = Inl InvalidR2CAxis"
  by (simp add: plan_operations_def)

lemma plan_operations_no_axis_error:
  "r = 0 \<or> r = 1 \<or> r = 2 \<Longrightarrow> plan_operations B boxes r \<noteq> Inl InvalidR2CAxis"
  by (auto simp: plan_operations_def split: sum.splits)

lemma delegate_axis:
  "\<not> (r = 0 \<or> r = 1 \<or> r = 2) \<Longrightarrow> delegate B i out r c = Inl InvalidR2CAxis"
  by (simp add: delegate_def plan_operations_axis)

lemma delegate_no_axis_error:
  "r = 0 \<or> r = 1 \<or> r = 2 \<Longrightarrow> delegate B i out r c \<noteq> Inl InvalidR2CAxis"
  using plan_operations_no_axis_error [of r B "gather_boxes B i out c"]
  by (auto simp: delegate_def split: sum.splits)

lemma geometry_one_rank:
  "plan_r2c_geometry (world 4 2 2) [world 4 2 2] [r2c (world 4 2 2) 0] 0 =
     Inr \<lparr>global_in = world 4 2 2, global_out = r2c (world 4 2 2) 0,
          in_shape = [world 4 2 2], out_shape = [r2c (world 4 2 2) 0],
          plan_scale = index_scale (world 4 2 2)\<rparr>"
  by (simp add: plan_r2c_geometry_def is_partition_def union_of_def)

lemma plan_422_boxes:
  "plan_422\<lparr>pinbox := world 4 2 2, poutbox := r2c (world 4 2 2) 0,
            scale_factor := index_scale (world 4 2 2)\<rparr> = plan_422"
  by (simp add: plan_422_def)

lemma ctor_one_rank:
  "fft3d_r2c_ctor (one_rank b) (world 4 2 2) (r2c (world 4 2 2) 0) 0 () = Inr plan_422"
  by (simp add: fft3d_r2c_ctor_def delegate_def plan_operations_def one_rank_def
      geometry_one_rank plan_422_boxes)

text \<open>
  C3. For every axis other than 0, 1 and 2 construction fails with \<open>InvalidR2CAxis\<close>,
  and it fails in the planner, before the private constructor builds any state of the
  plan; for an axis among 0, 1, 2 construction never fails with this error.
\<close>

theorem C3_invalid_axis:
  "(\<not> (r = 0 \<or> r = 1 \<or> r = 2) \<longrightarrow>
      plan_operations B (gather_boxes B i out c) r = Inl InvalidR2CAxis
      \<and> delegate B i out r c = Inl InvalidR2CAxis
      \<and> fft3d_r2c_ctor B i out r c = Inl InvalidR2CAxis)
   \<and> ((r = 0 \<or> r = 1 \<or> r = 2) \<longrightarrow> fft3d_r2c_ctor B i out r c \<noteq> Inl InvalidR2CAxis)"
proof -
  have a: "fft3d_r2c_ctor B i out r c = Inl InvalidR2CAxis" if "\<not> (r = 0 \<or> r = 1 \<or> r = 2)"
    using delegate_axis [OF that, of B i out c] by (simp add: fft3d_r2c_ctor_def)
  have b: "fft3d_r2c_ctor B i out r c \<noteq> Inl InvalidR2CAxis" if "r = 0 \<or> r = 1 \<or> r = 2"
    using delegate_no_axis_error [OF that, of B i out c] that
    by (auto simp: fft3d_r2c_ctor_def split: sum.splits)
  from a b plan_operations_axis [of r B "gather_boxes B i out c"] delegate_axis [of r B i out c]
  show ?thesis by blast
qed

text \<open>
  C3 on one rank: axes 3 and -1 are refused, with and without assertions, and axis 0
  builds the plan.
\<close>

theorem C3_invalid_axis_witness:
  "fft3d_r2c_ctor (one_rank True) (world 4 2 2) (r2c (world 4 2 2) 0) 3 ()
       = Inl InvalidR2CAxis
   \<and> fft3d_r2c_ctor (one_rank False) (world 4 2 2) (r2c (world 4 2 2) 0) (- 1) ()
       = Inl InvalidR2CAxis
   \<and> fft3d_r2c_ctor (one_rank True) (world 4 2 2) (r2c (world 4 2 2) 0) 0 () = Inr plan_422
   \<and> fft3d_r2c_ctor (one_rank True) (world 4 2 2) (r2c (world 4 2 2) 0) 0 ()
       \<noteq> Inl InvalidR2CAxis"
  using C3_invalid_axis [of 3 "one_rank True" "world 4 2 2" "r2c (world 4 2 2) 0" "()"]
    C3_invalid_axis [of "- 1" "one_rank False" "world 4 2 2" "r2c (world 4 2 2) 0" "()"]
    C3_invalid_axis [of 0 "one_rank True" "world 4 2 2" "r2c (world 4 2 2) 0" "()"]
  by (simp add: ctor_one_rank)

subsection \<open>The plan after a sequence of calls\<close>











end
